theory Spec2Isabelle
  imports Main "HOL-Library.Sublist" "HOL-Library.AList"
begin

section \<open>Go string helpers used by the agent\<close>

text \<open>
  Go strings are byte sequences; they are modelled as \<open>string\<close> (a list of 8-bit
  characters). The functions below follow the behaviour of the Go standard library
  functions of the same name on such byte strings.
\<close>

fun HasPrefix :: "string \<Rightarrow> string \<Rightarrow> bool" where
  "HasPrefix s [] = True"
| "HasPrefix [] (p # ps) = False"
| "HasPrefix (c # cs) (p # ps) = (c = p \<and> HasPrefix cs ps)"

fun Contains :: "string \<Rightarrow> string \<Rightarrow> bool" where
  "Contains [] sub = (sub = [])"
| "Contains (c # cs) sub = (HasPrefix (c # cs) sub \<or> Contains cs sub)"




section \<open>Protocol data\<close>

datatype ExecutionBehaviour = ON_SUCCESS | ON_FAILURE | ALWAYS

text \<open>
  The instruction of a command is a tagged union. The payload of an instruction is
  consumed by external collaborators only, except for the terminal server address;
  \<open>NoInstruction\<close> stands for an unset or unknown variant (the \<open>default\<close> branch of
  the dispatcher).
\<close>

datatype Instruction =
    ExitInstruction
  | CloneInstruction
  | FileInstruction
  | ScriptInstruction
  | BackgroundScriptInstruction
  | CacheInstruction
  | UploadCacheInstruction
  | ArtifactsInstruction
  | WaitForTerminalInstruction "string option"
  | NoInstruction

record Command =
  Name :: string
  ExecutionBehaviour :: ExecutionBehaviour
  Instruction :: Instruction

section \<open>BoundedCommands\<close>

datatype panic = SliceBoundsOutOfRange nat nat | ServerTokenIncorrect

text \<open>
  The single scan of \<open>BoundedCommands\<close>: \<open>i\<close> is the index of the head of the
  remaining list, \<open>left\<close> and \<open>right\<close> are the bounds found so far. Every match
  overwrites the bound.
\<close>

fun bounds_scan :: "Command list \<Rightarrow> string \<Rightarrow> string \<Rightarrow> nat \<Rightarrow> nat \<Rightarrow> nat \<Rightarrow> nat \<times> nat" where
  "bounds_scan [] fromName toName i left right = (left, right)"
| "bounds_scan (command # rest) fromName toName i left right =
     bounds_scan rest fromName toName (Suc i)
       (if fromName \<noteq> [] \<and> Name command = fromName then i else left)
       (if toName \<noteq> [] \<and> Name command = toName then i else right)"

text \<open>
  The slice expression \<open>commands[left:right]\<close> panics unless
  \<open>left \<le> right \<le> cap(commands)\<close>.
\<close>

definition slice :: "'a list \<Rightarrow> nat \<Rightarrow> nat \<Rightarrow> panic + 'a list" where
  "slice xs left right =
     (if left \<le> right \<and> right \<le> length xs
      then Inr (take (right - left) (drop left xs))
      else Inl (SliceBoundsOutOfRange left right))"

definition BoundedCommands :: "Command list \<Rightarrow> string \<Rightarrow> string \<Rightarrow> panic + Command list" where
  "BoundedCommands commands fromName toName =
     (case bounds_scan commands fromName toName 0 0 (length commands) of
        (left, right) \<Rightarrow> slice commands left right)"

subsection \<open>The bounds as the specification words them\<close>

fun first_index :: "('a \<Rightarrow> bool) \<Rightarrow> 'a list \<Rightarrow> nat option" where
  "first_index P [] = None"
| "first_index P (x # xs) =
     (if P x then Some 0 else map_option Suc (first_index P xs))"

fun last_index :: "('a \<Rightarrow> bool) \<Rightarrow> 'a list \<Rightarrow> nat option" where
  "last_index P [] = None"
| "last_index P (x # xs) =
     (case last_index P xs of
        Some j \<Rightarrow> Some (Suc j)
      | None \<Rightarrow> (if P x then Some 0 else None))"

definition spec_lower :: "Command list \<Rightarrow> string \<Rightarrow> nat" where
  "spec_lower commands fromName =
     (if fromName = [] then 0
      else case first_index (\<lambda>c. Name c = fromName) commands of
             None \<Rightarrow> 0 | Some i \<Rightarrow> i)"

definition spec_upper :: "Command list \<Rightarrow> string \<Rightarrow> nat" where
  "spec_upper commands toName =
     (if toName = [] then length commands
      else case last_index (\<lambda>c. Name c = toName) commands of
             None \<Rightarrow> length commands | Some i \<Rightarrow> i)"

definition spec_BoundedCommands :: "Command list \<Rightarrow> string \<Rightarrow> string \<Rightarrow> Command list" where
  "spec_BoundedCommands commands fromName toName =
     take (spec_upper commands toName - spec_lower commands fromName)
       (drop (spec_lower commands fromName) commands)"

section \<open>transportSettings\<close>


section \<open>retryableCloneError\<close>

text \<open>An \<open>error\<close> value is \<open>None\<close> for \<open>nil\<close> and \<open>Some text\<close> otherwise.\<close>

type_synonym error = "string option"


section \<open>The retried network calls of CloneRepository\<close>









section \<open>Environment\<close>

text \<open>
  Modelled from the spec: the \<open>environment\<close> package is not among the sources. The
  environment is a mapping from names to values together with the set of sensitive
  values that the log uploader redacts.
\<close>

record Environment =
  vars :: "string \<rightharpoonup> string"
  sensitiveValues :: "string set"

text \<open>Modelled from the spec: \<open>environment.NewEmpty\<close>, the empty environment.\<close>

definition EnvNewEmpty :: Environment where
  "EnvNewEmpty = \<lparr>vars = Map.empty, sensitiveValues = {}\<rparr>"

text \<open>Modelled from the spec: \<open>Environment.Lookup\<close>, the operation \<open>lookup\<close>.\<close>

definition EnvLookup :: "Environment \<Rightarrow> string \<Rightarrow> string option" where
  "EnvLookup e key = vars e key"

text \<open>Modelled from the spec: \<open>Environment.Get\<close>, the operation \<open>get\<close> (empty string default).\<close>

definition EnvGet :: "Environment \<Rightarrow> string \<Rightarrow> string" where
  "EnvGet e key = (case vars e key of None \<Rightarrow> [] | Some v \<Rightarrow> v)"

text \<open>Modelled from the spec: \<open>Environment.Set\<close>, the operation \<open>set\<close>.\<close>

definition EnvSet :: "Environment \<Rightarrow> string \<Rightarrow> string \<Rightarrow> Environment" where
  "EnvSet e key v = e\<lparr>vars := (vars e)(key \<mapsto> v)\<rparr>"

text \<open>
  Modelled from the spec: \<open>Environment.AddSensitiveValues\<close>, the operation
  \<open>addSensitiveValues\<close>.
\<close>

definition EnvAddSensitiveValues :: "Environment \<Rightarrow> string list \<Rightarrow> Environment" where
  "EnvAddSensitiveValues e vs = e\<lparr>sensitiveValues := sensitiveValues e \<union> set vs\<rparr>"

text \<open>
  A Go map that is handed to the environment (the variables of the controller's
  response, the variables read from a scratch file) is given by the list of its items;
  \<open>map_of\<close> looks a key up, \<open>AList.update\<close> stores a value, and the first item of a
  key is the one that counts.
\<close>

type_synonym gomap = "(string \<times> string) list"

text \<open>
  Modelled from the spec: \<open>Environment.Merge\<close>, the operation
  \<open>merge(map, markSensitive)\<close>: every pair of the map is set, and the values of the
  map are registered as sensitive when \<open>markSensitive\<close> holds.
\<close>

definition EnvMerge :: "Environment \<Rightarrow> gomap \<Rightarrow> bool \<Rightarrow> Environment" where
  "EnvMerge e m markSensitive =
     \<lparr>vars = vars e ++ map_of m,
      sensitiveValues =
        (if markSensitive then sensitiveValues e \<union> snd ` set (AList.clearjunk m)
         else sensitiveValues e)\<rparr>"

section \<open>The host platform\<close>

text \<open>
  What the agent reads from the machine it runs on: the constants of the Go runtime,
  the process environment, the temporary directory and the standard library functions
  whose result depends on the file system or the platform.
\<close>

record Host =
  GOOS :: string
  GOARCH :: string
  osLookupEnv :: "string \<rightharpoonup> string"
  TempDir :: string
  Separator :: char
  Join :: "string \<Rightarrow> string \<Rightarrow> string"
  statIsNotExist :: "string \<Rightarrow> bool"
  MkdirTemp :: "string \<Rightarrow> string \<Rightarrow> string"
  Atoi :: "string \<Rightarrow> int option"

text \<open>
  \<open>statIsNotExist h p\<close> is the value of \<open>os.IsNotExist(err)\<close> for the error of
  \<open>os.Stat(p)\<close>; \<open>MkdirTemp h dir pattern\<close> is the path returned by \<open>os.MkdirTemp\<close>,
  whose error the agent discards (the path is empty when the call fails).
  \<open>filepath.ToSlash\<close> replaces every separator of the platform by a slash.
\<close>

definition ToSlash :: "Host \<Rightarrow> string \<Rightarrow> string" where
  "ToSlash h path =
     (if Separator h = CHR ''/'' then path
      else map (\<lambda>c. if c = Separator h then CHR ''/'' else c) path)"

text \<open>Decimal formatting of an integer, as \<open>%d\<close> does.\<close>

definition digit_char :: "nat \<Rightarrow> char" where
  "digit_char d = char_of (48 + d)"

function digits :: "nat \<Rightarrow> string" where
  "digits n = (if n < 10 then [digit_char n] else digits (n div 10) @ [digit_char (n mod 10)])"
  by pat_completeness auto
termination
  by (relation "measure id") auto

definition FormatInt :: "int \<Rightarrow> string" where
  "FormatInt i = (if i < 0 then CHR ''-'' # digits (nat (- i)) else digits (nat i))"

section \<open>The executor\<close>

record CommandAndLogs =
  BackgroundName :: string
  Cmd :: nat
  Logs :: nat

datatype Status = EXECUTING | COMPLETED | FAILED | SKIPPED

record CommandResult =
  ResultName :: string
  ResultStatus :: Status
  DurationInNanos :: int
  ResultSignaledToExit :: bool

text \<open>
  What the agent does to its collaborators, in the order it does it. A log uploader is
  identified by the number of log uploaders created before it, a process by the handle
  the process runner returned for it.
\<close>

datatype Event =
    EvReportAgentError string
  | EvReportAgentWarning string
  | EvEnsureFolderExists string
  | EvChdir string
  | EvHttpCacheStart
  | EvTerminalStart string int
  | EvQueue CommandResult
  | EvFlush
  | EvPerformStep string
  | EvLogWrite nat string
  | EvFinalize nat
  | EvKill nat
  | EvMetricsCancel
  | EvReportAgentFinished "CommandResult list"

text \<open>
  The fields of \<open>Executor\<close> that the control loop uses, followed by the bookkeeping of
  the model: the events so far and the number of log uploaders created. The terminal
  wrapper is \<open>None\<close> until it is started.
\<close>

record Executor =
  taskId :: int
  serverToken :: string
  backgroundCommands :: "CommandAndLogs list"
  httpCacheHost :: string
  commandFrom :: string
  commandTo :: string
  preCreatedWorkingDir :: string
  env :: Environment
  terminalWrapper :: "(string \<times> int) option"
  events :: "Event list"
  nextLog :: nat

definition NewExecutor :: "int \<Rightarrow> string \<Rightarrow> string \<Rightarrow> string \<Rightarrow> string \<Rightarrow> string \<Rightarrow> Executor" where
  "NewExecutor tid clientToken srvToken cmdFrom cmdTo preCreated =
     \<lparr>taskId = tid, serverToken = srvToken, backgroundCommands = [], httpCacheHost = [],
      commandFrom = cmdFrom, commandTo = cmdTo, preCreatedWorkingDir = preCreated,
      env = EnvNewEmpty, terminalWrapper = None, events = [], nextLog = 0\<rparr>"

definition emit :: "Event list \<Rightarrow> Executor \<Rightarrow> Executor" where
  "emit evs executor = executor\<lparr>events := events executor @ evs\<rparr>"

subsection \<open>getScriptEnvironment\<close>

definition getScriptEnvironment :: "Host \<Rightarrow> Executor \<Rightarrow> gomap option \<Rightarrow> gomap" where
  "getScriptEnvironment h executor responseEnvironment =
     (let re = (case responseEnvironment of None \<Rightarrow> [] | Some m \<Rightarrow> m);
          re = (if map_of re ''OS'' = None
                then (if osLookupEnv h ''OS'' = None then AList.update ''OS'' (GOOS h) re else re)
                else re);
          re = AList.update ''CIRRUS_OS'' (GOOS h) re;
          re = AList.update ''CIRRUS_ARCH'' (GOARCH h) re;
          hasWorkingDir = (map_of re ''CIRRUS_WORKING_DIR'' \<noteq> None);
          re = (if \<not> hasWorkingDir \<and> preCreatedWorkingDir executor \<noteq> []
                then AList.update ''CIRRUS_WORKING_DIR'' (preCreatedWorkingDir executor) re
                else re);
          re = (if map_of re ''CIRRUS_WORKING_DIR'' = None
                then (let defaultTempDirPath = Join h (TempDir h) ''cirrus-ci-build'' in
                      if statIsNotExist h defaultTempDirPath
                      then AList.update ''CIRRUS_WORKING_DIR'' (ToSlash h defaultTempDirPath) re
                      else if commandFrom executor \<noteq> []
                      then AList.update ''CIRRUS_WORKING_DIR'' (ToSlash h defaultTempDirPath) re
                      else (let uniqueTempDirPath =
                                  MkdirTemp h (TempDir h) (''cirrus-task-'' @ FormatInt (taskId executor))
                            in AList.update ''CIRRUS_WORKING_DIR'' (ToSlash h uniqueTempDirPath) re))
                else re)
      in re)"

subsection \<open>The update batcher\<close>

text \<open>
  Modelled from the spec: the \<open>updatebatcher\<close> package is not among the sources. The
  batcher keeps the append-only history of every result that was ever queued.
\<close>

record UpdateBatcher =
  history :: "CommandResult list"

text \<open>Modelled from the spec: \<open>updatebatcher.New\<close>, a batcher with an empty history.\<close>

definition ubNew :: UpdateBatcher where
  "ubNew = \<lparr>history = []\<rparr>"

text \<open>
  Modelled from the spec: \<open>UpdateBatcher.Queue\<close>, the operation \<open>queue(result)\<close>; the
  result joins the history, and the call is recorded as an event.
\<close>

definition ubQueue :: "UpdateBatcher \<Rightarrow> CommandResult \<Rightarrow> Executor \<Rightarrow> UpdateBatcher \<times> Executor" where
  "ubQueue ub r executor = (ub\<lparr>history := history ub @ [r]\<rparr>, emit [EvQueue r] executor)"

text \<open>
  Modelled from the spec: \<open>UpdateBatcher.Flush\<close>, the operation \<open>flush\<close>, which sends
  the buffered results to the controller (\<open>ReportCommandUpdates\<close>); the call is
  recorded as an event.
\<close>

definition ubFlush :: "UpdateBatcher \<Rightarrow> Executor \<Rightarrow> Executor" where
  "ubFlush ub executor = emit [EvFlush] executor"

text \<open>Modelled from the spec: \<open>UpdateBatcher.History\<close>, the operation \<open>history()\<close>.\<close>

definition ubHistory :: "UpdateBatcher \<Rightarrow> CommandResult list" where
  "ubHistory ub = history ub"

subsection \<open>performStep\<close>

record StepResult =
  Success :: bool
  SignaledToExit :: bool
  Duration :: int

datatype ScriptErr = NoError | TimeOutError | OtherError string

datatype Operation = LogOperation string | ExitOperation bool

text \<open>
  What the collaborators of one step answer: the errors of \<open>NewLogUploader\<close> and of
  \<open>cirrusenv.New\<close>, the path of the scratch file, the boolean of the clone, file,
  cache and artifact handlers, the error and process state of a foreground script, the
  error or process handle of a background script, the operations the terminal wrapper
  sends, the variables and the error of \<open>cirrusEnv.Consume\<close>, and the elapsed time.
  The handlers read the environment and do not change it.
\<close>

record StepWorld =
  newLogUploaderErr :: error
  cirrusEnvNewErr :: error
  cirrusEnvPath :: string
  handlerSuccess :: bool
  scriptErr :: ScriptErr
  processSuccess :: bool
  waitStatusSignaled :: "bool option"
  backgroundStart :: "string + nat"
  terminalOperations :: "Operation list"
  consumeVariables :: gomap
  consumeErr :: error
  elapsed :: int

text \<open>
  The loop of the \<open>WaitForTerminalInstruction\<close> case receives operations until the
  first exit operation. When the wrapper sends no exit operation the loop does not end:
  the first component of the result is \<open>None\<close>.
\<close>

fun waitForTerminal :: "Operation list \<Rightarrow> nat \<Rightarrow> Event list \<Rightarrow> bool option \<times> Event list" where
  "waitForTerminal [] logUploader written = (None, written)"
| "waitForTerminal (LogOperation message # rest) logUploader written =
     waitForTerminal rest logUploader (written @ [EvLogWrite logUploader (message @ ''\<newline>'')])"
| "waitForTerminal (ExitOperation ok # rest) logUploader written = (Some ok, written)"

datatype Dispatched =
    DispatchExit
  | DispatchBlocked Executor
  | DispatchDone bool bool Executor

fun dispatch :: "StepWorld \<Rightarrow> Executor \<Rightarrow> string \<Rightarrow> nat \<Rightarrow> Instruction \<Rightarrow> Dispatched" where
  "dispatch sw executor name logUploader ExitInstruction = DispatchExit"
| "dispatch sw executor name logUploader CloneInstruction =
     DispatchDone (handlerSuccess sw) False executor"
| "dispatch sw executor name logUploader FileInstruction =
     DispatchDone (handlerSuccess sw) False executor"
| "dispatch sw executor name logUploader ScriptInstruction =
     (let success = (scriptErr sw = NoError \<and> processSuccess sw);
          signaledToExit = False;
          signaledToExit = (if scriptErr sw = NoError
                            then (case waitStatusSignaled sw of
                                    Some signaled \<Rightarrow> signaled
                                  | None \<Rightarrow> signaledToExit)
                            else signaledToExit);
          signaledToExit = (if scriptErr sw = TimeOutError then False else signaledToExit)
      in DispatchDone success signaledToExit executor)"
| "dispatch sw executor name logUploader BackgroundScriptInstruction =
     (case backgroundStart sw of
        Inr cmd \<Rightarrow>
          DispatchDone True False
            (executor\<lparr>backgroundCommands := backgroundCommands executor @
               [\<lparr>BackgroundName = name, Cmd = cmd, Logs = logUploader\<rparr>]\<rparr>)
      | Inl err \<Rightarrow>
          DispatchDone False False
            (emit [EvLogWrite logUploader (''Failed to create command line: '' @ err),
                   EvFinalize logUploader] executor))"
| "dispatch sw executor name logUploader CacheInstruction =
     DispatchDone (handlerSuccess sw) False executor"
| "dispatch sw executor name logUploader UploadCacheInstruction =
     DispatchDone (handlerSuccess sw) False executor"
| "dispatch sw executor name logUploader ArtifactsInstruction =
     DispatchDone (handlerSuccess sw) False executor"
| "dispatch sw executor name logUploader (WaitForTerminalInstruction address) =
     (case waitForTerminal (terminalOperations sw) logUploader [] of
        (None, written) \<Rightarrow> DispatchBlocked (emit written executor)
      | (Some ok, written) \<Rightarrow> DispatchDone ok False (emit written executor))"
| "dispatch sw executor name logUploader NoInstruction =
     DispatchDone False False executor"

datatype StepReturn = StepOk StepResult | ErrStepExit | StepBlocked

text \<open>
  The deferred \<open>logUploader.Finalize()\<close> runs when \<open>performStep\<close> returns, after
  everything else the step did; it is not installed for a background script.
\<close>

definition performStep :: "StepWorld \<Rightarrow> Executor \<Rightarrow> Command \<Rightarrow> StepReturn \<times> Executor" where
  "performStep sw executor currentStep =
     (case newLogUploaderErr sw of
        Some err \<Rightarrow>
          (StepOk \<lparr>Success = False, SignaledToExit = False, Duration = elapsed sw\<rparr>,
           emit [EvReportAgentWarning (''Failed to initialize command '' @ Name currentStep @
                   '' log upload: '' @ err)] executor)
      | None \<Rightarrow>
          (let logUploader = nextLog executor;
               executor = executor\<lparr>nextLog := Suc logUploader\<rparr>;
               deferred = (if Instruction currentStep = BackgroundScriptInstruction then []
                           else [EvFinalize logUploader])
           in case cirrusEnvNewErr sw of
                Some err \<Rightarrow>
                  (StepOk \<lparr>Success = False, SignaledToExit = False, Duration = elapsed sw\<rparr>,
                   emit (EvLogWrite logUploader
                           (''Failed initialize CIRRUS_ENV subsystem: '' @ err @ ''\<newline>'') # deferred)
                     executor)
              | None \<Rightarrow>
                  (let executor = executor\<lparr>env := EnvSet (env executor) ''CIRRUS_ENV'' (cirrusEnvPath sw)\<rparr>
                   in case dispatch sw executor (Name currentStep) logUploader (Instruction currentStep) of
                        DispatchExit \<Rightarrow> (ErrStepExit, emit deferred executor)
                      | DispatchBlocked executor \<Rightarrow> (StepBlocked, executor)
                      | DispatchDone success signaledToExit executor \<Rightarrow>
                          (let executor =
                                 (case consumeErr sw of
                                    Some err \<Rightarrow>
                                      emit [EvLogWrite logUploader
                                              (''Failed collect CIRRUS_ENV subsystem results: '' @ err @
                                               ''\<newline>'')] executor
                                  | None \<Rightarrow> executor);
                               isSensitive = (EnvLookup (env executor) ''CIRRUS_ENV_SENSITIVE'' \<noteq> None);
                               executor = executor\<lparr>env := EnvMerge (env executor) (consumeVariables sw) isSensitive\<rparr>
                           in (StepOk \<lparr>Success = success, SignaledToExit = signaledToExit,
                                       Duration = elapsed sw\<rparr>,
                               emit deferred executor)))))"

subsection \<open>The loop over the bounded commands\<close>

definition shouldRun :: "ExecutionBehaviour \<Rightarrow> bool \<Rightarrow> bool" where
  "shouldRun behaviour failedAtLeastOnce =
     ((behaviour = ON_SUCCESS \<and> \<not> failedAtLeastOnce) \<or>
      (behaviour = ON_FAILURE \<and> failedAtLeastOnce) \<or>
      behaviour = ALWAYS)"

datatype LoopReturn = LoopDone | LoopExit | LoopBlocked

text \<open>
  One iteration per command; \<open>i\<close> counts the iterations, and \<open>steps i\<close> is what the
  collaborators answer during iteration \<open>i\<close>. The loop is left when \<open>performStep\<close>
  returns an error.
\<close>

fun commandLoop ::
  "(nat \<Rightarrow> StepWorld) \<Rightarrow> nat \<Rightarrow> Command list \<Rightarrow> bool \<Rightarrow> UpdateBatcher \<Rightarrow> Executor \<Rightarrow>
   LoopReturn \<times> bool \<times> UpdateBatcher \<times> Executor" where
  "commandLoop steps i [] failedAtLeastOnce ub executor =
     (LoopDone, failedAtLeastOnce, ub, executor)"
| "commandLoop steps i (command # rest) failedAtLeastOnce ub executor =
     (if \<not> shouldRun (ExecutionBehaviour command) failedAtLeastOnce
      then (case ubQueue ub \<lparr>ResultName = Name command, ResultStatus = SKIPPED,
                              DurationInNanos = 0, ResultSignaledToExit = False\<rparr> executor of
              (ub, executor) \<Rightarrow> commandLoop steps (Suc i) rest failedAtLeastOnce ub executor)
      else (case ubQueue ub \<lparr>ResultName = Name command, ResultStatus = EXECUTING,
                              DurationInNanos = 0, ResultSignaledToExit = False\<rparr> executor of
              (ub, executor) \<Rightarrow>
                (case performStep (steps i)
                        (emit [EvPerformStep (Name command)] (ubFlush ub executor)) command of
                   (ErrStepExit, executor) \<Rightarrow> (LoopExit, failedAtLeastOnce, ub, executor)
                 | (StepBlocked, executor) \<Rightarrow> (LoopBlocked, failedAtLeastOnce, ub, executor)
                 | (StepOk stepResult, executor) \<Rightarrow>
                     (case ubQueue ub
                             \<lparr>ResultName = Name command,
                              ResultStatus = (if Success stepResult then COMPLETED else FAILED),
                              DurationInNanos = Duration stepResult,
                              ResultSignaledToExit = SignaledToExit stepResult\<rparr> executor of
                        (ub, executor) \<Rightarrow>
                          commandLoop steps (Suc i) rest
                            (if \<not> Success stepResult then True else failedAtLeastOnce)
                            ub executor))))"

subsection \<open>The drain of the background registry\<close>

text \<open>
  The clean-up loop at the end of \<open>RunBuild\<close>: every entry is killed, a kill error is
  written to the entry's log, and the log is finalised. \<open>killErr i\<close> is the error of the
  kill of entry \<open>i\<close>. The registry itself is left as it is.
\<close>

fun drainEvents :: "(nat \<Rightarrow> error) \<Rightarrow> nat \<Rightarrow> CommandAndLogs list \<Rightarrow> Event list" where
  "drainEvents killErr i [] = []"
| "drainEvents killErr i (backgroundCommand # rest) =
     EvKill (Cmd backgroundCommand) #
     (case killErr i of
        None \<Rightarrow> []
      | Some err \<Rightarrow>
          [EvLogWrite (Logs backgroundCommand)
             (''\<newline>Failed to stop background script '' @ BackgroundName backgroundCommand @
              '': '' @ err @ ''!'')]) @
     EvFinalize (Logs backgroundCommand) # drainEvents killErr (Suc i) rest"

definition drain :: "(nat \<Rightarrow> error) \<Rightarrow> Executor \<Rightarrow> Executor" where
  "drain killErr executor = emit (drainEvents killErr 0 (backgroundCommands executor)) executor"

subsection \<open>The Vault unboxer\<close>

datatype BoxedParse = ErrNotABoxedValue | BoxedParseError string | Boxed string

record VaultUnboxer =
  address :: string
  namespace :: "string option"
  login :: "(string \<times> string) option"

text \<open>
  What the controller, the Vault client and the other collaborators of \<open>RunBuild\<close>
  answer. \<open>initialCommands\<close> is \<open>None\<close> when the context is cancelled before a
  response arrives; \<open>itemsOrder\<close> is the order in which the items of a map are
  visited; \<open>metrics\<close> is \<open>None\<close> when no result arrives within three seconds, and
  the list of the collector's errors otherwise.
\<close>

record CommandsResponse =
  ServerToken :: string
  RespEnvironment :: "gomap option"
  Commands :: "Command list"
  TimeoutInSeconds :: int
  SecretsToMask :: "string list"
  FailedAtLeastOnce :: bool

record World =
  host :: Host
  initialCommands :: "CommandsResponse option"
  itemsOrder :: "(string \<rightharpoonup> string) \<Rightarrow> string list"
  NewBoxedValue :: "string \<Rightarrow> BoxedParse"
  vaultNewClientErr :: error
  vaultSetAddressErr :: "string \<Rightarrow> error"
  vaultLoginErr :: "string \<Rightarrow> string \<Rightarrow> error"
  vaultUnbox :: "VaultUnboxer \<Rightarrow> string \<Rightarrow> string + string"
  httpCacheStart :: string
  steps :: "nat \<Rightarrow> StepWorld"
  killErr :: "nat \<Rightarrow> error"
  metrics :: "string list option"
  reportAgentFinishedErr :: error

definition NewFromEnvironment :: "World \<Rightarrow> Environment \<Rightarrow> string + VaultUnboxer" where
  "NewFromEnvironment w e =
     (case vaultNewClientErr w of
        Some err \<Rightarrow> Inl err
      | None \<Rightarrow>
          (case EnvLookup e ''CIRRUS_VAULT_URL'' of
             None \<Rightarrow> Inl (''found Vault-protected environment variables, '' @
                           ''but no CIRRUS_VAULT_URL variable was provided'')
           | Some url \<Rightarrow>
               (case vaultSetAddressErr w url of
                  Some err \<Rightarrow> Inl err
                | None \<Rightarrow>
                    (let ns = EnvLookup e ''CIRRUS_VAULT_NAMESPACE'' in
                     case EnvLookup e ''CIRRUS_OIDC_TOKEN'' of
                       None \<Rightarrow> Inr \<lparr>address = url, namespace = ns, login = None\<rparr>
                     | Some jwtToken \<Rightarrow>
                         (case vaultLoginErr w jwtToken (EnvGet e ''CIRRUS_VAULT_ROLE'') of
                            Some err \<Rightarrow> Inl err
                          | None \<Rightarrow>
                              Inr \<lparr>address = url, namespace = ns,
                                   login = Some (jwtToken, EnvGet e ''CIRRUS_VAULT_ROLE'')\<rparr>)))))"

text \<open>
  The loop over the items of the environment. The result is \<open>True\<close> when the loop
  made \<open>RunBuild\<close> return after reporting an error.
\<close>

fun unboxItems ::
  "World \<Rightarrow> (string \<times> string) list \<Rightarrow> VaultUnboxer option \<Rightarrow> Executor \<Rightarrow> bool \<times> Executor" where
  "unboxItems w [] vaultUnboxer executor = (False, executor)"
| "unboxItems w ((key, v) # rest) vaultUnboxer executor =
     (case NewBoxedValue w v of
        ErrNotABoxedValue \<Rightarrow> unboxItems w rest vaultUnboxer executor
      | BoxedParseError err \<Rightarrow>
          (True, emit [EvReportAgentError
                         (''failed to parse a Vault-boxed value '' @ v @ '': '' @ err)] executor)
      | Boxed boxedValue \<Rightarrow>
          (case (case vaultUnboxer of
                   Some u \<Rightarrow> Inr u
                 | None \<Rightarrow> NewFromEnvironment w (env executor)) of
             Inl err \<Rightarrow>
               (True, emit [EvReportAgentError
                              (''failed to initialize a Vault client: '' @ err)] executor)
           | Inr u \<Rightarrow>
               (case vaultUnbox w u boxedValue of
                  Inl err \<Rightarrow>
                    (True, emit [EvReportAgentError
                                   (''failed to unbox a Vault-boxed value '' @ v @ '': '' @ err)]
                             executor)
                | Inr unboxedValue \<Rightarrow>
                    unboxItems w rest (Some u)
                      (executor\<lparr>env := EnvAddSensitiveValues
                                          (EnvSet (env executor) key unboxedValue)
                                          [unboxedValue]\<rparr>))))"

text \<open>
  Modelled from the spec: \<open>Environment.Items\<close>, the operation \<open>items\<close>, listed in the
  order in which the loop visits them.
\<close>

definition EnvItems :: "World \<Rightarrow> Environment \<Rightarrow> (string \<times> string) list" where
  "EnvItems w e =
     List.map_filter (\<lambda>key. map_option (Pair key) (vars e key)) (itemsOrder w (vars e))"

subsection \<open>RunBuild\<close>

fun terminalScan :: "Command list \<Rightarrow> bool \<times> string" where
  "terminalScan [] = (False, [])"
| "terminalScan (command # rest) =
     (case Instruction command of
        WaitForTerminalInstruction a \<Rightarrow> (True, (case a of None \<Rightarrow> [] | Some addr \<Rightarrow> addr))
      | _ \<Rightarrow> terminalScan rest)"

text \<open>A \<open>time.Duration\<close> is a signed 64-bit count of nanoseconds.\<close>

definition int64 :: "int \<Rightarrow> int" where
  "int64 x = (x + 2 ^ 63) mod 2 ^ 64 - 2 ^ 63"

definition startTerminal :: "World \<Rightarrow> Command list \<Rightarrow> Executor \<Rightarrow> Executor" where
  "startTerminal w commands executor =
     (case terminalScan commands of
        (hasWaitForTerminalInstruction, terminalServerAddress) \<Rightarrow>
          if hasWaitForTerminalInstruction
          then (let expireIn = int64 (15 * 60000000000);
                    expireIn =
                      (case EnvLookup (env executor) ''CIRRUS_TERMINAL_EXPIRATION_WINDOW'' of
                         Some expireInString \<Rightarrow>
                           (case Atoi (host w) expireInString of
                              Some expireInInt \<Rightarrow> int64 (expireInInt * 1000000000)
                            | None \<Rightarrow> expireIn)
                       | None \<Rightarrow> expireIn)
                in emit [EvTerminalStart terminalServerAddress expireIn]
                     (executor\<lparr>terminalWrapper := Some (terminalServerAddress, expireIn)\<rparr>))
          else executor)"

definition changeWorkingDir :: "Executor \<Rightarrow> Executor" where
  "changeWorkingDir executor =
     (case EnvLookup (env executor) ''CIRRUS_WORKING_DIR'' of
        Some workingDir \<Rightarrow> emit [EvEnsureFolderExists workingDir, EvChdir workingDir] executor
      | None \<Rightarrow> executor)"

definition ensureCacheHost :: "World \<Rightarrow> Executor \<Rightarrow> Executor" where
  "ensureCacheHost w executor =
     (let executor =
            (case osLookupEnv (host w) ''CIRRUS_HTTP_CACHE_HOST'' of
               Some cacheHost \<Rightarrow>
                 executor\<lparr>env := EnvSet (env executor) ''CIRRUS_HTTP_CACHE_HOST'' cacheHost\<rparr>
             | None \<Rightarrow> executor);
          executor =
            (if EnvLookup (env executor) ''CIRRUS_HTTP_CACHE_HOST'' = None
             then emit [EvHttpCacheStart]
                    (executor\<lparr>env := EnvSet (env executor) ''CIRRUS_HTTP_CACHE_HOST''
                                         (httpCacheStart w)\<rparr>)
             else executor)
      in executor\<lparr>httpCacheHost := EnvGet (env executor) ''CIRRUS_HTTP_CACHE_HOST''\<rparr>)"

definition collectMetrics :: "World \<Rightarrow> Executor \<Rightarrow> Executor" where
  "collectMetrics w executor =
     emit (EvMetricsCancel #
           (case metrics w of
              Some errs \<Rightarrow>
                map (\<lambda>err. EvReportAgentWarning
                       (''Encountered an error while gathering resource utilization metrics: '' @ err))
                  errs
            | None \<Rightarrow>
                [EvReportAgentWarning ''Failed to retrieve resource utilization metrics in time'']))
       executor"

text \<open>\<open>ReportAgentFinished\<close> is attempted at most twice.\<close>

definition reportFinished :: "World \<Rightarrow> UpdateBatcher \<Rightarrow> Executor \<Rightarrow> Executor" where
  "reportFinished w ub executor =
     emit (EvReportAgentFinished (ubHistory ub) #
           (case reportAgentFinishedErr w of
              Some err \<Rightarrow> [EvReportAgentFinished (ubHistory ub)]
            | None \<Rightarrow> []))
       executor"

datatype ReturnPoint = ContextCancelled | VaultFailure | NoCommands | StepExit | Finished

datatype Outcome = Returned ReturnPoint | Panicked panic | Blocked

text \<open>
  \<open>RunBuild\<close> is given in two parts. The second part, \<open>runCommands\<close>, is what
  \<open>RunBuild\<close> does once it has found the command list non-empty: the terminal
  pre-scan, the loop over the bounded commands, and the teardown that follows the loop
  when the loop runs to its end.
\<close>

definition runCommands :: "World \<Rightarrow> CommandsResponse \<Rightarrow> Executor \<Rightarrow> Outcome \<times> Executor" where
  "runCommands w response executor =
     (let commands = Commands response;
          executor = startTerminal w commands executor;
          failedAtLeastOnce = FailedAtLeastOnce response;
          ub = ubNew
      in case BoundedCommands commands (commandFrom executor) (commandTo executor) of
           Inl p \<Rightarrow> (Panicked p, executor)
         | Inr bounded \<Rightarrow>
             (case commandLoop (steps w) 0 bounded failedAtLeastOnce ub executor of
                (LoopExit, failedAtLeastOnce, ub, executor) \<Rightarrow> (Returned StepExit, executor)
              | (LoopBlocked, failedAtLeastOnce, ub, executor) \<Rightarrow> (Blocked, executor)
              | (LoopDone, failedAtLeastOnce, ub, executor) \<Rightarrow>
                  (let executor = ubFlush ub executor;
                       executor = drain (killErr w) executor;
                       executor = collectMetrics w executor;
                       executor = reportFinished w ub executor
                   in (Returned Finished, executor))))"

definition RunBuild :: "World \<Rightarrow> Executor \<Rightarrow> Outcome \<times> Executor" where
  "RunBuild w executor =
     (case initialCommands w of
        None \<Rightarrow> (Returned ContextCancelled, executor)
      | Some response \<Rightarrow>
          if ServerToken response \<noteq> serverToken executor
          then (Panicked ServerTokenIncorrect, executor)
          else
            (let executor = executor\<lparr>env := EnvMerge (env executor)
                              (getScriptEnvironment (host w) executor (RespEnvironment response))
                              False\<rparr>
             in case unboxItems w (EnvItems w (env executor)) None executor of
                  (True, executor) \<Rightarrow> (Returned VaultFailure, executor)
                | (False, executor) \<Rightarrow>
                    (let executor = changeWorkingDir executor;
                         commands = Commands response;
                         executor = ensureCacheHost w executor;
                         executor = executor\<lparr>env := EnvAddSensitiveValues (env executor)
                                                        (SecretsToMask response)\<rparr>
                     in if length commands = 0 then (Returned NoCommands, executor)
                        else runCommands w response executor)))"

section \<open>Notions used to state the properties\<close>

text \<open>
  A path is in forward-slash form when it contains no separator of the platform other
  than the slash.
\<close>

definition forwardSlashForm :: "Host \<Rightarrow> string \<Rightarrow> bool" where
  "forwardSlashForm h path = (Separator h = CHR ''/'' \<or> Separator h \<notin> set path)"

text \<open>The events of the phases of \<open>RunBuild\<close> that come before the terminal is started.\<close>

fun preludeEvent :: "Event \<Rightarrow> bool" where
  "preludeEvent (EvReportAgentError m) = True"
| "preludeEvent (EvEnsureFolderExists d) = True"
| "preludeEvent (EvChdir d) = True"
| "preludeEvent EvHttpCacheStart = True"
| "preludeEvent e = False"

text \<open>
  \<open>preludeStep executor executor'\<close>: between the two states only prelude events were
  added, and the registry, the count of log uploaders, the terminal wrapper and the
  launch parameters are the same.
\<close>

definition preludeStep :: "Executor \<Rightarrow> Executor \<Rightarrow> bool" where
  "preludeStep executor executor' =
     (backgroundCommands executor' = backgroundCommands executor \<and>
      nextLog executor' = nextLog executor \<and>
      terminalWrapper executor' = terminalWrapper executor \<and>
      commandFrom executor' = commandFrom executor \<and>
      commandTo executor' = commandTo executor \<and>
      (\<exists>evs. events executor' = events executor @ evs \<and> list_all preludeEvent evs))"

text \<open>
  The state of the registry while the loop runs: the logs of its entries are distinct
  log uploaders created earlier, none of them has been finalised, every finalised log
  was created earlier, and no process has been killed.
\<close>

definition registryInv :: "Executor \<Rightarrow> bool" where
  "registryInv executor =
     (distinct (map Logs (backgroundCommands executor)) \<and>
      (\<forall>b\<in>set (backgroundCommands executor). Logs b < nextLog executor) \<and>
      (\<forall>l. EvFinalize l \<in> set (events executor) \<longrightarrow>
           l < nextLog executor \<and> l \<notin> Logs ` set (backgroundCommands executor)) \<and>
      (\<forall>p. EvKill p \<notin> set (events executor)))"

text \<open>The names of the commands handed to \<open>performStep\<close>, and the results queued, in order.\<close>

fun performed :: "Event list \<Rightarrow> string list" where
  "performed [] = []"
| "performed (EvPerformStep n # evs) = n # performed evs"
| "performed (e # evs) = performed evs"

fun queued :: "Event list \<Rightarrow> CommandResult list" where
  "queued [] = []"
| "queued (EvQueue r # evs) = r # queued evs"
| "queued (e # evs) = queued evs"

text \<open>
  What \<open>performStep\<close> returns for a command when the collaborators answer \<open>sw\<close>; it
  does not depend on the executor.
\<close>

definition stepReturn :: "StepWorld \<Rightarrow> Command \<Rightarrow> StepReturn" where
  "stepReturn sw c = fst (performStep sw (NewExecutor 0 [] [] [] [] []) c)"

definition stepFailed :: "StepReturn \<Rightarrow> bool" where
  "stepFailed r = (case r of StepOk stepResult \<Rightarrow> \<not> Success stepResult | _ \<Rightarrow> False)"

definition stepReturned :: "StepReturn \<Rightarrow> bool" where
  "stepReturned r = (case r of StepOk stepResult \<Rightarrow> True | _ \<Rightarrow> False)"

text \<open>
  The execution-behaviour table over the positions of a command list: \<open>failedBefore i\<close>
  is the initial value of \<open>failedAtLeastOnce\<close> or the failure of a step executed before
  position \<open>i\<close>; \<open>stoppedBefore i\<close> says that a step executed before position \<open>i\<close> did
  not return a result (it asked to exit, or never returned); the command at position
  \<open>i\<close> is executed when the loop has not stopped and \<open>shouldRun\<close> holds for it.
\<close>

fun failedBefore :: "(nat \<Rightarrow> StepWorld) \<Rightarrow> Command list \<Rightarrow> bool \<Rightarrow> nat \<Rightarrow> bool" where
  "failedBefore sws cs init 0 = init"
| "failedBefore sws cs init (Suc i) =
     (failedBefore sws cs init i \<or>
      (shouldRun (ExecutionBehaviour (cs ! i)) (failedBefore sws cs init i) \<and>
       stepFailed (stepReturn (sws i) (cs ! i))))"

fun stoppedBefore :: "(nat \<Rightarrow> StepWorld) \<Rightarrow> Command list \<Rightarrow> bool \<Rightarrow> nat \<Rightarrow> bool" where
  "stoppedBefore sws cs init 0 = False"
| "stoppedBefore sws cs init (Suc i) =
     (stoppedBefore sws cs init i \<or>
      (shouldRun (ExecutionBehaviour (cs ! i)) (failedBefore sws cs init i) \<and>
       \<not> stepReturned (stepReturn (sws i) (cs ! i))))"

definition executedAt :: "(nat \<Rightarrow> StepWorld) \<Rightarrow> Command list \<Rightarrow> bool \<Rightarrow> nat \<Rightarrow> bool" where
  "executedAt sws cs init i =
     (\<not> stoppedBefore sws cs init i \<and>
      shouldRun (ExecutionBehaviour (cs ! i)) (failedBefore sws cs init i))"

definition resultsAt :: "(nat \<Rightarrow> StepWorld) \<Rightarrow> Command list \<Rightarrow> bool \<Rightarrow> nat \<Rightarrow> CommandResult list" where
  "resultsAt sws cs init i =
     (if stoppedBefore sws cs init i then []
      else if \<not> shouldRun (ExecutionBehaviour (cs ! i)) (failedBefore sws cs init i)
      then [\<lparr>ResultName = Name (cs ! i), ResultStatus = SKIPPED,
              DurationInNanos = 0, ResultSignaledToExit = False\<rparr>]
      else \<lparr>ResultName = Name (cs ! i), ResultStatus = EXECUTING,
             DurationInNanos = 0, ResultSignaledToExit = False\<rparr> #
           (case stepReturn (sws i) (cs ! i) of
              StepOk stepResult \<Rightarrow>
                [\<lparr>ResultName = Name (cs ! i),
                  ResultStatus = (if Success stepResult then COMPLETED else FAILED),
                  DurationInNanos = Duration stepResult,
                  ResultSignaledToExit = SignaledToExit stepResult\<rparr>]
            | _ \<Rightarrow> []))"

text \<open>
  Two dispatches agree when they end the same way with the same success and signalled
  flags.
\<close>

fun sameShape :: "Dispatched \<Rightarrow> Dispatched \<Rightarrow> bool" where
  "sameShape DispatchExit d = (d = DispatchExit)"
| "sameShape (DispatchBlocked e) d = (\<exists>e'. d = DispatchBlocked e')"
| "sameShape (DispatchDone ok sig e) d = (\<exists>e'. d = DispatchDone ok sig e')"

text \<open>
  The flag after the head of a command list, whether the loop stops at the head, and
  the names and results the table expects for the whole list.
\<close>

definition nextFailed :: "StepWorld \<Rightarrow> Command \<Rightarrow> bool \<Rightarrow> bool" where
  "nextFailed sw c init =
     (init \<or> (shouldRun (ExecutionBehaviour c) init \<and> stepFailed (stepReturn sw c)))"

definition stopsHere :: "StepWorld \<Rightarrow> Command \<Rightarrow> bool \<Rightarrow> bool" where
  "stopsHere sw c init =
     (shouldRun (ExecutionBehaviour c) init \<and> \<not> stepReturned (stepReturn sw c))"

definition expectedPerformed :: "(nat \<Rightarrow> StepWorld) \<Rightarrow> Command list \<Rightarrow> bool \<Rightarrow> string list" where
  "expectedPerformed sws cs init =
     map (\<lambda>i. Name (cs ! i)) (filter (executedAt sws cs init) [0..<length cs])"

definition expectedQueued :: "(nat \<Rightarrow> StepWorld) \<Rightarrow> Command list \<Rightarrow> bool \<Rightarrow> CommandResult list" where
  "expectedQueued sws cs init = concat (map (resultsAt sws cs init) [0..<length cs])"

section \<open>Example inputs\<close>

text \<open>
  A Linux host and a Windows host, a step in which every collaborator succeeds, and a
  controller that answers with a given command list.
\<close>

definition linuxHost :: Host where
  "linuxHost =
     \<lparr>GOOS = ''linux'', GOARCH = ''amd64'', osLookupEnv = Map.empty, TempDir = ''/tmp'',
      Separator = CHR ''/'', Join = (\<lambda>a b. a @ ''/'' @ b), statIsNotExist = (\<lambda>p. False),
      MkdirTemp = (\<lambda>dir pattern. dir @ ''/'' @ pattern @ ''123''), Atoi = (\<lambda>s. None)\<rparr>"

definition windowsHost :: Host where
  "windowsHost =
     \<lparr>GOOS = ''windows'', GOARCH = ''amd64'', osLookupEnv = Map.empty,
      TempDir = ''C:'' @ [CHR 0x5C] @ ''Temp'',
      Separator = CHR 0x5C, Join = (\<lambda>a b. a @ [CHR 0x5C] @ b), statIsNotExist = (\<lambda>p. False),
      MkdirTemp = (\<lambda>dir pattern. dir @ [CHR 0x5C] @ pattern @ ''123''), Atoi = (\<lambda>s. None)\<rparr>"

definition goodStep :: StepWorld where
  "goodStep =
     \<lparr>newLogUploaderErr = None, cirrusEnvNewErr = None, cirrusEnvPath = ''/tmp/cirrus-env'',
      handlerSuccess = True, scriptErr = NoError, processSuccess = True,
      waitStatusSignaled = Some False, backgroundStart = Inr 7,
      terminalOperations = [ExitOperation True], consumeVariables = [],
      consumeErr = None, elapsed = 1\<rparr>"

definition command :: "string \<Rightarrow> ExecutionBehaviour \<Rightarrow> Instruction \<Rightarrow> Command" where
  "command n b i = \<lparr>Name = n, ExecutionBehaviour = b, Instruction = i\<rparr>"

definition responseWith :: "Command list \<Rightarrow> CommandsResponse" where
  "responseWith cs =
     \<lparr>ServerToken = ''token'', RespEnvironment = None, Commands = cs,
      TimeoutInSeconds = 3600, SecretsToMask = [''s3cr3t''], FailedAtLeastOnce = False\<rparr>"

definition worldWith :: "(nat \<Rightarrow> StepWorld) \<Rightarrow> Command list \<Rightarrow> World" where
  "worldWith sws cs =
     \<lparr>host = linuxHost, initialCommands = Some (responseWith cs),
      itemsOrder = (\<lambda>m. [''OS'', ''CIRRUS_OS'', ''CIRRUS_ARCH'', ''CIRRUS_WORKING_DIR'']),
      NewBoxedValue = (\<lambda>v. ErrNotABoxedValue), vaultNewClientErr = None,
      vaultSetAddressErr = (\<lambda>url. None), vaultLoginErr = (\<lambda>token role. None),
      vaultUnbox = (\<lambda>u v. Inr v), httpCacheStart = ''127.0.0.1:12321'',
      steps = sws, killErr = (\<lambda>i. None), metrics = Some [], reportAgentFinishedErr = None\<rparr>"

text \<open>
  A step whose scratch file defines \<open>TOKEN\<close>, a step whose scratch file defines
  \<open>CIRRUS_ENV_SENSITIVE\<close> and \<open>TOKEN\<close>, an executor whose environment already
  defines \<open>CIRRUS_ENV_SENSITIVE\<close>, and an executor with one registered background
  command.
\<close>

definition stepWritingToken :: StepWorld where
  "stepWritingToken = goodStep\<lparr>consumeVariables := [(''TOKEN'', ''s3cr3t'')]\<rparr>"

definition stepWritingFlagAndToken :: StepWorld where
  "stepWritingFlagAndToken =
     goodStep\<lparr>consumeVariables := [(''CIRRUS_ENV_SENSITIVE'', ''true''), (''TOKEN'', ''s3cr3t'')]\<rparr>"

definition executorWithFlag :: Executor where
  "executorWithFlag =
     (NewExecutor 1 ''secret'' ''token'' [] [] [])
       \<lparr>env := EnvSet EnvNewEmpty ''CIRRUS_ENV_SENSITIVE'' ''true''\<rparr>"


text \<open>A step whose script exits with a non-zero status.\<close>

definition failingStep :: StepWorld where
  "failingStep = goodStep\<lparr>processSuccess := False\<rparr>"

section \<open>Properties\<close>

subsection \<open>Strings\<close>

lemma HasPrefix_prefix: "HasPrefix s p = prefix p s"
  by (induction s p rule: HasPrefix.induct) auto

lemma Contains_sublist: "Contains s sub = sublist sub s"
  by (induction s) (auto simp: HasPrefix_prefix sublist_Cons_right)


subsection \<open>BoundedCommands\<close>

lemma last_index_None: "last_index P xs = None \<longleftrightarrow> (\<forall>x\<in>set xs. \<not> P x)"
  by (induction xs) (auto split: option.splits)

lemma first_index_None: "first_index P xs = None \<longleftrightarrow> (\<forall>x\<in>set xs. \<not> P x)"
  by (induction xs) auto

lemma last_index_Some: "last_index P xs = Some j \<Longrightarrow> j < length xs \<and> P (xs ! j)"
  by (induction xs arbitrary: j) (auto split: option.splits if_splits)

lemma first_index_Some: "first_index P xs = Some j \<Longrightarrow> j < length xs \<and> P (xs ! j)"
  by (induction xs arbitrary: j) (auto split: option.splits if_splits)

text \<open>Both bounds of the scan are the index of the last match.\<close>

lemma bounds_scan_last:
  "bounds_scan cs f t i l r =
     ((case last_index (\<lambda>c. f \<noteq> [] \<and> Name c = f) cs of None \<Rightarrow> l | Some j \<Rightarrow> i + j),
      (case last_index (\<lambda>c. t \<noteq> [] \<and> Name c = t) cs of None \<Rightarrow> r | Some j \<Rightarrow> i + j))"
  by (induction cs arbitrary: i l r) (auto split: option.splits)

lemma distinct_first_last:
  "distinct (map f xs) \<Longrightarrow> first_index (\<lambda>c. f c = a) xs = last_index (\<lambda>c. f c = a) xs"
proof (induction xs)
  case Nil
  then show ?case by simp
next
  case (Cons x xs)
  show ?case
  proof (cases "f x = a")
    case True
    from Cons.prems have "f x \<notin> f ` set xs" by simp
    with True have "\<forall>y\<in>set xs. f y \<noteq> a" by blast
    then have "last_index (\<lambda>c. f c = a) xs = None"
      by (simp add: last_index_None)
    with True show ?thesis by simp
  next
    case False
    with Cons show ?thesis by (auto split: option.splits)
  qed
qed

lemma scan_lower:
  assumes d: "distinct (map Name cs)"
  shows "fst (bounds_scan cs f t 0 0 (length cs)) = spec_lower cs f"
proof (cases "f = []")
  case True
  have "last_index (\<lambda>c. False) cs = None" by (simp add: last_index_None)
  with True show ?thesis by (simp add: bounds_scan_last spec_lower_def)
next
  case False
  with distinct_first_last [OF d, of f] show ?thesis
    by (simp add: bounds_scan_last spec_lower_def split: option.splits)
qed

lemma scan_upper: "snd (bounds_scan cs f t 0 0 (length cs)) = spec_upper cs t"
proof (cases "t = []")
  case True
  have "last_index (\<lambda>c. False) cs = None" by (simp add: last_index_None)
  with True show ?thesis by (simp add: bounds_scan_last spec_upper_def)
next
  case False
  then show ?thesis by (simp add: bounds_scan_last spec_upper_def split: option.splits)
qed

lemma spec_upper_le: "spec_upper cs t \<le> length cs"
  by (auto simp: spec_upper_def split: option.splits dest: last_index_Some)

lemma BoundedCommands_bounds:
  assumes "distinct (map Name cs)"
  shows "BoundedCommands cs f t = slice cs (spec_lower cs f) (spec_upper cs t)"
proof -
  obtain l r where lr: "bounds_scan cs f t 0 0 (length cs) = (l, r)"
    by (cases "bounds_scan cs f t 0 0 (length cs)")
  with scan_lower [OF assms, of f t] scan_upper [of cs f t]
  have "l = spec_lower cs f" "r = spec_upper cs t" by simp_all
  with lr show ?thesis by (simp add: BoundedCommands_def)
qed

lemma BoundedCommands_all: "BoundedCommands cs [] [] = Inr cs"
proof -
  have "last_index (\<lambda>c. False) cs = None" by (simp add: last_index_None)
  then show ?thesis
    by (simp add: BoundedCommands_def bounds_scan_last slice_def)
qed

lemma slice_hd:
  assumes "slice cs l r = Inr res" "res \<noteq> []"
  shows "l < length cs \<and> hd res = cs ! l"
proof -
  from assms have res: "res = take (r - l) (drop l cs)" and "l \<le> r"
    by (auto simp: slice_def split: if_splits)
  with assms(2) have "l < length cs" "0 < r - l" by auto
  then show ?thesis using res by (simp add: hd_drop_conv_nth)
qed

lemma slice_members:
  assumes "slice cs l r = Inr res" "c \<in> set res"
  shows "\<exists>k. l \<le> k \<and> k < r \<and> k < length cs \<and> cs ! k = c"
proof -
  from assms have res: "res = take (r - l) (drop l cs)" and "l \<le> r" "r \<le> length cs"
    by (auto simp: slice_def split: if_splits)
  from assms(2) obtain i where i: "i < length res" "res ! i = c"
    by (auto simp: in_set_conv_nth)
  with res have "i < r - l" "l + i < length cs" by auto
  with i res have "cs ! (l + i) = c" by simp
  with \<open>i < r - l\<close> \<open>l + i < length cs\<close> show ?thesis
    by (intro exI [of _ "l + i"]) auto
qed

lemma spec_lower_named:
  assumes "f \<noteq> []" "f \<in> Name ` set cs"
  shows "spec_lower cs f < length cs \<and> Name (cs ! spec_lower cs f) = f"
proof -
  from assms(2) have "first_index (\<lambda>c. Name c = f) cs \<noteq> None"
    by (auto simp: first_index_None)
  then obtain j where "first_index (\<lambda>c. Name c = f) cs = Some j" by auto
  with assms(1) first_index_Some [OF this] show ?thesis
    by (simp add: spec_lower_def)
qed

lemma spec_upper_excludes:
  assumes "t \<noteq> []" "k < spec_upper cs t" "k < length cs" "distinct (map Name cs)"
  shows "Name (cs ! k) \<noteq> t"
proof
  assume n: "Name (cs ! k) = t"
  with assms(3) have "last_index (\<lambda>c. Name c = t) cs \<noteq> None"
    by (auto simp: last_index_None)
  then obtain j where j: "last_index (\<lambda>c. Name c = t) cs = Some j" by auto
  from last_index_Some [OF j] have "j < length cs" "Name (cs ! j) = t" by simp_all
  with n assms(3) nth_eq_iff_index_eq [OF assms(4), of k j] have "k = j"
    by simp
  moreover from j assms(1) have "spec_upper cs t = j" by (simp add: spec_upper_def)
  ultimately show False using assms(2) by simp
qed

text \<open>
  Claim C3, as the code has it. For a command list with unique names (the contract in
  the comment of \<open>BoundedCommands\<close>): without bounds the list is returned whole; when
  the lower bound (the index of the command named \<open>fromName\<close>, 0 if the name is empty
  or absent) does not exceed the upper bound (the index of the command named
  \<open>toName\<close>, the length if the name is empty or absent), the result is the slice
  between them, and otherwise the slice expression panics; when the function returns,
  a non-empty result starts with the command named \<open>fromName\<close> if that name is
  non-empty and a member, and no command of the result is named \<open>toName\<close> if that name
  is non-empty.
\<close>

theorem BoundedCommands_range:
  assumes "distinct (map Name commands)"
  shows "BoundedCommands commands [] [] = Inr commands \<and>
         BoundedCommands commands fromName toName =
           (if spec_lower commands fromName \<le> spec_upper commands toName
            then Inr (spec_BoundedCommands commands fromName toName)
            else Inl (SliceBoundsOutOfRange (spec_lower commands fromName)
                        (spec_upper commands toName))) \<and>
         (\<forall>res. BoundedCommands commands fromName toName = Inr res \<longrightarrow>
            (fromName \<noteq> [] \<and> fromName \<in> Name ` set commands \<and> res \<noteq> [] \<longrightarrow>
               Name (hd res) = fromName) \<and>
            (toName \<noteq> [] \<longrightarrow> (\<forall>c\<in>set res. Name c \<noteq> toName)))"
proof (intro conjI allI impI ballI)
  note b = BoundedCommands_bounds [OF assms, of fromName toName]
  show "BoundedCommands commands [] [] = Inr commands"
    by (rule BoundedCommands_all)
  show "BoundedCommands commands fromName toName =
          (if spec_lower commands fromName \<le> spec_upper commands toName
           then Inr (spec_BoundedCommands commands fromName toName)
           else Inl (SliceBoundsOutOfRange (spec_lower commands fromName)
                       (spec_upper commands toName)))"
    using spec_upper_le [of commands toName]
    by (simp add: b slice_def spec_BoundedCommands_def)
  {
    fix res
    assume r: "BoundedCommands commands fromName toName = Inr res"
    with b have s: "slice commands (spec_lower commands fromName) (spec_upper commands toName) = Inr res"
      by simp
    {
      assume "fromName \<noteq> [] \<and> fromName \<in> Name ` set commands \<and> res \<noteq> []"
      then have f: "fromName \<noteq> []" "fromName \<in> Name ` set commands" and ne: "res \<noteq> []"
        by simp_all
      from slice_hd [OF s ne] spec_lower_named [OF f]
      show "Name (hd res) = fromName" by simp
    }
    {
      fix c
      assume t: "toName \<noteq> []" and c: "c \<in> set res"
      from slice_members [OF s c] obtain k where
        k: "k < spec_upper commands toName" "k < length commands" "commands ! k = c"
        by blast
      from spec_upper_excludes [OF t k(1,2) assms] k(3)
      show "Name c \<noteq> toName" by simp
    }
  }
qed

theorem BoundedCommands_range_witness:
  "BoundedCommands
     [command ''a'' ALWAYS ScriptInstruction, command ''b'' ALWAYS ScriptInstruction,
      command ''c'' ALWAYS ScriptInstruction, command ''d'' ALWAYS ScriptInstruction] ''b'' ''d'' =
   Inr [command ''b'' ALWAYS ScriptInstruction, command ''c'' ALWAYS ScriptInstruction] \<and>
   Name (hd [command ''b'' ALWAYS ScriptInstruction, command ''c'' ALWAYS ScriptInstruction]) = ''b'' \<and>
   map Name [command ''b'' ALWAYS ScriptInstruction, command ''c'' ALWAYS ScriptInstruction] =
     [''b'', ''c'']"
proof -
  let ?cs = "[command ''a'' ALWAYS ScriptInstruction, command ''b'' ALWAYS ScriptInstruction,
      command ''c'' ALWAYS ScriptInstruction, command ''d'' ALWAYS ScriptInstruction]"
  have d: "distinct (map Name ?cs)" by (simp add: command_def)
  have l: "spec_lower ?cs ''b'' = 1" by (simp add: spec_lower_def command_def)
  have u: "spec_upper ?cs ''d'' = 3" by (simp add: spec_upper_def command_def)
  have s: "spec_BoundedCommands ?cs ''b'' ''d'' =
             [command ''b'' ALWAYS ScriptInstruction, command ''c'' ALWAYS ScriptInstruction]"
    by (simp add: spec_BoundedCommands_def l u)
  from BoundedCommands_range [OF d, of "''b''" "''d''"] l u s
  have r: "BoundedCommands ?cs ''b'' ''d'' =
             Inr [command ''b'' ALWAYS ScriptInstruction, command ''c'' ALWAYS ScriptInstruction]"
    and p: "\<forall>res. BoundedCommands ?cs ''b'' ''d'' = Inr res \<longrightarrow>
            (''b'' \<noteq> [] \<and> ''b'' \<in> Name ` set ?cs \<and> res \<noteq> [] \<longrightarrow> Name (hd res) = ''b'') \<and>
            (''d'' \<noteq> [] \<longrightarrow> (\<forall>c\<in>set res. Name c \<noteq> ''d''))"
    by (simp_all add: command_def)
  have m: "''b'' \<in> Name ` set ?cs" by (simp add: command_def)
  from p r m show ?thesis by (simp add: command_def)
qed

theorem BoundedCommands_counterexample:
  "BoundedCommands [command ''a'' ALWAYS ScriptInstruction, command ''b'' ALWAYS ScriptInstruction]
     ''b'' ''a'' = Inl (SliceBoundsOutOfRange 1 0) \<and>
   spec_BoundedCommands [command ''a'' ALWAYS ScriptInstruction, command ''b'' ALWAYS ScriptInstruction]
     ''b'' ''a'' = []"
  by (simp add: BoundedCommands_def slice_def command_def spec_BoundedCommands_def
        spec_lower_def spec_upper_def)

subsection \<open>transportSettings\<close>




subsection \<open>retryableCloneError and the retries of the clone\<close>












subsection \<open>The token check\<close>

text \<open>
  Claim C4. When the token of the controller's response differs from the token given
  at launch, \<open>RunBuild\<close> panics at once: the executor is as it was, so no step was
  performed and no result was queued, flushed or reported.
\<close>

theorem RunBuild_token_mismatch:
  assumes "initialCommands w = Some response"
    and "ServerToken response \<noteq> serverToken executor"
  shows "RunBuild w executor = (Panicked ServerTokenIncorrect, executor) \<and>
         events (snd (RunBuild w executor)) = events executor"
  using assms by (simp add: RunBuild_def)

theorem RunBuild_token_mismatch_witness:
  "RunBuild (worldWith (\<lambda>i. goodStep) [command ''main'' ALWAYS ScriptInstruction])
     (NewExecutor 1 ''secret'' ''other'' [] [] []) =
   (Panicked ServerTokenIncorrect, NewExecutor 1 ''secret'' ''other'' [] [] []) \<and>
   events (snd (RunBuild (worldWith (\<lambda>i. goodStep) [command ''main'' ALWAYS ScriptInstruction])
     (NewExecutor 1 ''secret'' ''other'' [] [] []))) = []"
  using RunBuild_token_mismatch
    [of "worldWith (\<lambda>i. goodStep) [command ''main'' ALWAYS ScriptInstruction]"
        "responseWith [command ''main'' ALWAYS ScriptInstruction]"
        "NewExecutor 1 ''secret'' ''other'' [] [] []"]
  by (simp add: worldWith_def responseWith_def NewExecutor_def)

subsection \<open>The epilogue of performStep\<close>

lemma waitForTerminal_written:
  "waitForTerminal ops lg written = (r, evs) \<Longrightarrow> \<exists>more. evs = written @ more \<and> (\<forall>e\<in>set more. \<exists>m. e = EvLogWrite lg m)"
proof (induction ops lg written rule: waitForTerminal.induct)
  case (1 logUploader written)
  then show ?case by simp
next
  case (2 message rest logUploader written)
  from 2 show ?case by fastforce
next
  case (3 ok rest logUploader written)
  then show ?case by simp
qed

lemma dispatch_env:
  "dispatch sw executor name lg instr = DispatchDone ok sig executor' \<Longrightarrow> env executor' = env executor"
  by (cases instr) (auto simp: Let_def emit_def split: sum.splits prod.splits option.splits)

text \<open>
  Claim C5, as the code has it. A step that reaches its epilogue (the log uploader and
  the scratch file were created and the instruction returned a result) merges the
  variables of its scratch file with \<open>markSensitive\<close> true exactly when
  \<open>CIRRUS_ENV_SENSITIVE\<close> was defined in the environment before the merge, that is
  before the step's own variables are in the environment: the values of the file are
  registered as sensitive when the flag was already defined, and the set of sensitive
  values is unchanged when it was not.
\<close>

theorem performStep_epilogue:
  assumes "newLogUploaderErr sw = None" and "cirrusEnvNewErr sw = None"
    and "fst (performStep sw executor currentStep) = StepOk stepResult"
  shows "env (snd (performStep sw executor currentStep)) =
           EnvMerge (EnvSet (env executor) ''CIRRUS_ENV'' (cirrusEnvPath sw)) (consumeVariables sw)
             (EnvLookup (env executor) ''CIRRUS_ENV_SENSITIVE'' \<noteq> None) \<and>
         sensitiveValues (env (snd (performStep sw executor currentStep))) =
           (if EnvLookup (env executor) ''CIRRUS_ENV_SENSITIVE'' \<noteq> None
            then sensitiveValues (env executor) \<union> snd ` set (AList.clearjunk (consumeVariables sw))
            else sensitiveValues (env executor))"
proof -
  let ?ex1 = "executor\<lparr>nextLog := Suc (nextLog executor),
                env := EnvSet (env executor) ''CIRRUS_ENV'' (cirrusEnvPath sw)\<rparr>"
  let ?d = "dispatch sw ?ex1 (Name currentStep) (nextLog executor) (Instruction currentStep)"
  from assms obtain ok sig ex2 where d: "?d = DispatchDone ok sig ex2"
    by (cases ?d) (auto simp: performStep_def Let_def)
  from dispatch_env [OF d] have e: "env ex2 = EnvSet (env executor) ''CIRRUS_ENV'' (cirrusEnvPath sw)"
    by simp
  have l: "EnvLookup (EnvSet (env executor) ''CIRRUS_ENV'' (cirrusEnvPath sw)) ''CIRRUS_ENV_SENSITIVE''
        = EnvLookup (env executor) ''CIRRUS_ENV_SENSITIVE''"
    by (simp add: EnvLookup_def EnvSet_def)
  from assms(1,2) d e l
  have "env (snd (performStep sw executor currentStep)) =
           EnvMerge (EnvSet (env executor) ''CIRRUS_ENV'' (cirrusEnvPath sw)) (consumeVariables sw)
             (EnvLookup (env executor) ''CIRRUS_ENV_SENSITIVE'' \<noteq> None)"
    by (cases "consumeErr sw") (simp_all add: performStep_def Let_def emit_def del: not_None_eq)
  then show ?thesis
    by (simp add: EnvMerge_def EnvSet_def del: not_None_eq)
qed

theorem performStep_epilogue_witness:
  "sensitiveValues (env (snd (performStep stepWritingToken executorWithFlag (command ''main'' ALWAYS ScriptInstruction)))) =
     {''s3cr3t''}"
proof -
  have r: "fst (performStep stepWritingToken executorWithFlag (command ''main'' ALWAYS ScriptInstruction)) =
             StepOk \<lparr>Success = True, SignaledToExit = False, Duration = 1\<rparr>"
    by (simp add: stepWritingToken_def goodStep_def performStep_def Let_def command_def)
  have a: "newLogUploaderErr stepWritingToken = None" "cirrusEnvNewErr stepWritingToken = None"
    by (simp_all add: stepWritingToken_def goodStep_def)
  from performStep_epilogue [OF a r]
  have "sensitiveValues (env (snd (performStep stepWritingToken executorWithFlag (command ''main'' ALWAYS ScriptInstruction)))) =
          (if EnvLookup (env executorWithFlag) ''CIRRUS_ENV_SENSITIVE'' \<noteq> None
           then sensitiveValues (env executorWithFlag) \<union> snd ` set (AList.clearjunk (consumeVariables stepWritingToken))
           else sensitiveValues (env executorWithFlag))"
    by (rule conjunct2)
  also have "\<dots> = {''s3cr3t''}"
    by (simp add: stepWritingToken_def goodStep_def executorWithFlag_def NewExecutor_def EnvSet_def EnvNewEmpty_def
          EnvLookup_def)
  finally show ?thesis .
qed

text \<open>
  A step whose own scratch file defines \<open>CIRRUS_ENV_SENSITIVE\<close> and \<open>TOKEN\<close>, in an
  environment without the flag: after the step both variables are defined, and the
  value of \<open>TOKEN\<close> is not sensitive.
\<close>

theorem performStep_counterexample:
  "EnvLookup (env (snd (performStep stepWritingFlagAndToken (NewExecutor 1 ''secret'' ''token'' [] [] [])
       (command ''main'' ALWAYS ScriptInstruction)))) ''CIRRUS_ENV_SENSITIVE'' = Some ''true'' \<and>
   EnvLookup (env (snd (performStep stepWritingFlagAndToken (NewExecutor 1 ''secret'' ''token'' [] [] [])
       (command ''main'' ALWAYS ScriptInstruction)))) ''TOKEN'' = Some ''s3cr3t'' \<and>
   ''s3cr3t'' \<notin> sensitiveValues (env (snd (performStep stepWritingFlagAndToken (NewExecutor 1 ''secret'' ''token'' [] [] [])
       (command ''main'' ALWAYS ScriptInstruction))))"
  by (simp add: stepWritingFlagAndToken_def goodStep_def performStep_def Let_def NewExecutor_def command_def emit_def
     EnvSet_def EnvNewEmpty_def EnvLookup_def EnvMerge_def)

subsection \<open>The drain of the background registry\<close>


lemma drainEvents_kill:
  "b \<in> set bs \<Longrightarrow> EvKill (Cmd b) \<in> set (drainEvents k i bs)"
  by (induction bs arbitrary: i) auto



subsection \<open>getScriptEnvironment\<close>

lemma forwardSlashForm_ToSlash: "forwardSlashForm h (ToSlash h path)"
  by (auto simp: forwardSlashForm_def ToSlash_def)

lemma working_dir_keys:
  "''CIRRUS_WORKING_DIR'' \<noteq> ''OS''" "''CIRRUS_WORKING_DIR'' \<noteq> ''CIRRUS_OS''"
  "''CIRRUS_WORKING_DIR'' \<noteq> ''CIRRUS_ARCH''"
  by simp_all

lemma map_of_update_other: "k' \<noteq> k \<Longrightarrow> map_of (AList.update k v al) k' = map_of al k'"
  by (simp add: update_conv')

lemma map_of_update_same: "map_of (AList.update k v al) k = Some v"
  by (simp add: update_conv')

lemma getScriptEnvironment_lookup:
  "map_of (getScriptEnvironment h executor responseEnvironment) ''CIRRUS_WORKING_DIR'' =
     Some (case map_of (case responseEnvironment of None \<Rightarrow> [] | Some m \<Rightarrow> m) ''CIRRUS_WORKING_DIR'' of
             Some v \<Rightarrow> v
           | None \<Rightarrow>
               if preCreatedWorkingDir executor \<noteq> [] then preCreatedWorkingDir executor
               else if statIsNotExist h (Join h (TempDir h) ''cirrus-ci-build'') \<or>
                       commandFrom executor \<noteq> []
               then ToSlash h (Join h (TempDir h) ''cirrus-ci-build'')
               else ToSlash h (MkdirTemp h (TempDir h)
                                 (''cirrus-task-'' @ FormatInt (taskId executor))))"
proof -
  define re0 where "re0 = (case responseEnvironment of None \<Rightarrow> [] | Some m \<Rightarrow> m)"
  define re1 where "re1 = (if map_of re0 ''OS'' = None
                then (if osLookupEnv h ''OS'' = None then AList.update ''OS'' (GOOS h) re0 else re0)
                else re0)"
  define re2 where "re2 = AList.update ''CIRRUS_OS'' (GOOS h) re1"
  define re3 where "re3 = AList.update ''CIRRUS_ARCH'' (GOARCH h) re2"
  define re4 where "re4 = (if \<not> (map_of re3 ''CIRRUS_WORKING_DIR'' \<noteq> None) \<and>
                              preCreatedWorkingDir executor \<noteq> []
                then AList.update ''CIRRUS_WORKING_DIR'' (preCreatedWorkingDir executor) re3
                else re3)"
  define re5 where "re5 = (if map_of re4 ''CIRRUS_WORKING_DIR'' = None
                then (if statIsNotExist h (Join h (TempDir h) ''cirrus-ci-build'')
                      then AList.update ''CIRRUS_WORKING_DIR''
                             (ToSlash h (Join h (TempDir h) ''cirrus-ci-build'')) re4
                      else if commandFrom executor \<noteq> []
                      then AList.update ''CIRRUS_WORKING_DIR''
                             (ToSlash h (Join h (TempDir h) ''cirrus-ci-build'')) re4
                      else AList.update ''CIRRUS_WORKING_DIR''
                             (ToSlash h (MkdirTemp h (TempDir h)
                                (''cirrus-task-'' @ FormatInt (taskId executor)))) re4)
                else re4)"
  have g: "getScriptEnvironment h executor responseEnvironment = re5"
    by (simp only: getScriptEnvironment_def Let_def re5_def re4_def re3_def re2_def re1_def re0_def)
  have k1: "map_of re1 ''CIRRUS_WORKING_DIR'' = map_of re0 ''CIRRUS_WORKING_DIR''"
    by (simp add: re1_def map_of_update_other [OF working_dir_keys(1)] del: AList.update.simps)
  have k3: "map_of re3 ''CIRRUS_WORKING_DIR'' = map_of re0 ''CIRRUS_WORKING_DIR''"
    by (simp only: re3_def re2_def k1 map_of_update_other [OF working_dir_keys(2)]
          map_of_update_other [OF working_dir_keys(3)])
  show ?thesis
  proof (cases "map_of re0 ''CIRRUS_WORKING_DIR''")
    case (Some v)
    with k3 have "map_of re4 ''CIRRUS_WORKING_DIR'' = Some v"
      by (simp add: re4_def)
    then have "map_of re5 ''CIRRUS_WORKING_DIR'' = Some v"
      by (simp add: re5_def)
    with Some show ?thesis
      by (simp add: g re0_def [symmetric])
  next
    case None
    show ?thesis
    proof (cases "preCreatedWorkingDir executor = []")
      case True
      with None k3 have n4: "re4 = re3" by (simp add: re4_def)
      with None k3 have "map_of re4 ''CIRRUS_WORKING_DIR'' = None" by simp
      then have "map_of re5 ''CIRRUS_WORKING_DIR'' =
         Some (if statIsNotExist h (Join h (TempDir h) ''cirrus-ci-build'') \<or>
                       commandFrom executor \<noteq> []
               then ToSlash h (Join h (TempDir h) ''cirrus-ci-build'')
               else ToSlash h (MkdirTemp h (TempDir h)
                                 (''cirrus-task-'' @ FormatInt (taskId executor))))"
        by (simp add: re5_def map_of_update_same del: AList.update.simps)
      with None True show ?thesis
        by (simp add: g re0_def [symmetric])
    next
      case False
      with None k3 have "map_of re4 ''CIRRUS_WORKING_DIR'' = Some (preCreatedWorkingDir executor)"
        by (simp add: re4_def map_of_update_same)
      then have "map_of re5 ''CIRRUS_WORKING_DIR'' = Some (preCreatedWorkingDir executor)"
        by (simp add: re5_def)
      with None False show ?thesis
        by (simp add: g re0_def [symmetric])
    qed
  qed
qed

text \<open>
  Claim C8, as the code has it. \<open>CIRRUS_WORKING_DIR\<close> is the value the server
  supplied, if any; else the pre-created working directory, if non-empty; else the
  directory \<open>cirrus-ci-build\<close> in the temporary directory when it does not exist or
  the run is a resumption; else the directory made by \<open>MkdirTemp\<close> for the pattern
  \<open>cirrus-task-<taskId>\<close>. The last two are converted to forward-slash form; a
  value of the server and the pre-created directory are taken as they are.
\<close>

theorem getScriptEnvironment_working_dir:
  "map_of (getScriptEnvironment h executor responseEnvironment) ''CIRRUS_WORKING_DIR'' =
     Some (case map_of (case responseEnvironment of None \<Rightarrow> [] | Some m \<Rightarrow> m) ''CIRRUS_WORKING_DIR'' of
             Some v \<Rightarrow> v
           | None \<Rightarrow>
               if preCreatedWorkingDir executor \<noteq> [] then preCreatedWorkingDir executor
               else if statIsNotExist h (Join h (TempDir h) ''cirrus-ci-build'') \<or>
                       commandFrom executor \<noteq> []
               then ToSlash h (Join h (TempDir h) ''cirrus-ci-build'')
               else ToSlash h (MkdirTemp h (TempDir h)
                                 (''cirrus-task-'' @ FormatInt (taskId executor)))) \<and>
   (map_of (case responseEnvironment of None \<Rightarrow> [] | Some m \<Rightarrow> m) ''CIRRUS_WORKING_DIR'' = None \<and>
    preCreatedWorkingDir executor = [] \<longrightarrow>
      (\<exists>path. map_of (getScriptEnvironment h executor responseEnvironment) ''CIRRUS_WORKING_DIR'' =
                 Some path \<and> forwardSlashForm h path))"
  by (simp add: getScriptEnvironment_lookup forwardSlashForm_ToSlash)

theorem getScriptEnvironment_working_dir_witness:
  "map_of (getScriptEnvironment windowsHost (NewExecutor 42 ''secret'' ''token'' [] [] []) None)
     ''CIRRUS_WORKING_DIR'' = Some ''C:/Temp/cirrus-task-42123'' \<and>
   forwardSlashForm windowsHost ''C:/Temp/cirrus-task-42123''"
proof -
  have f: "FormatInt 42 = ''42''" by code_simp
  from getScriptEnvironment_working_dir [of windowsHost "NewExecutor 42 ''secret'' ''token'' [] [] []" None] f
  show ?thesis
    by (simp add: windowsHost_def NewExecutor_def ToSlash_def forwardSlashForm_def)
qed

text \<open>
  On a Windows host a pre-created working directory with a backslash is the resolved
  directory, and is not in forward-slash form.
\<close>

theorem getScriptEnvironment_counterexample:
  "map_of (getScriptEnvironment windowsHost
       (NewExecutor 42 ''secret'' ''token'' [] [] (''C:'' @ [CHR 0x5C] @ ''work'')) None)
     ''CIRRUS_WORKING_DIR'' = Some (''C:'' @ [CHR 0x5C] @ ''work'') \<and>
   \<not> forwardSlashForm windowsHost (''C:'' @ [CHR 0x5C] @ ''work'')"
  by (simp add: getScriptEnvironment_lookup windowsHost_def NewExecutor_def forwardSlashForm_def)

end
